theory Spec2Isabelle
  imports Complex_Main "HOL-Library.Sublist"
begin

section \<open>Python values\<close>

text \<open>
  A Python \<open>str\<close> is modelled as a \<open>string\<close>: one \<open>char\<close> per code point, so the texts of
  the model are the Python strings over the code points U+0000 to U+00FF. Floats that the
  program computes from integers (\<open>get_file_size_mb\<close>) and clock readings are rational
  numbers.
\<close>

text \<open>The exceptions the program raises, each with its message.\<close>

datatype error =
    ValueError string
  | RuntimeError string
  | OSError string
  | APIError string

text \<open>Truthiness of an \<open>Optional[str]\<close>: \<open>None\<close> and the empty string are false.\<close>

definition truthy :: "string option \<Rightarrow> bool" where
  "truthy v = (case v of None \<Rightarrow> False | Some s \<Rightarrow> s \<noteq> [])"

text \<open>\<open>str(n)\<close> of a non-negative integer, as the f-strings of the program format it.\<close>

definition digit_char :: "nat \<Rightarrow> char" where
  "digit_char d = char_of (48 + d)"

fun str_nat :: "nat \<Rightarrow> string" where
  "str_nat n = (if n < 10 then [digit_char n] else str_nat (n div 10) @ [digit_char (n mod 10)])"

declare str_nat.simps [simp del]

text \<open>\<open>str.lower()\<close> on the code points below U+0100: the ASCII capitals and the Latin-1
  capitals U+00C0 to U+00DE (U+00D7, the multiplication sign, apart) move up by 32.\<close>

definition lower_char :: "char \<Rightarrow> char" where
  "lower_char c =
     (let n = (of_char c :: nat)
      in if (65 \<le> n \<and> n \<le> 90) \<or> (192 \<le> n \<and> n \<le> 222 \<and> n \<noteq> 215)
         then char_of (n + 32) else c)"

definition lower :: "string \<Rightarrow> string" where
  "lower s = map lower_char s"

text \<open>\<open>s.lstrip(chars)\<close>, \<open>s.rstrip(chars)\<close> and \<open>s.strip(chars)\<close> for a set of characters.\<close>

definition lstrip :: "char set \<Rightarrow> string \<Rightarrow> string" where
  "lstrip cs s = dropWhile (\<lambda>c. c \<in> cs) s"

definition rstrip :: "char set \<Rightarrow> string \<Rightarrow> string" where
  "rstrip cs s = rev (dropWhile (\<lambda>c. c \<in> cs) (rev s))"

definition strip :: "char set \<Rightarrow> string \<Rightarrow> string" where
  "strip cs s = rstrip cs (lstrip cs s)"

text \<open>The characters \<open>str.strip()\<close> removes when it is called without an argument: those
  for which \<open>str.isspace\<close> holds, below U+0100.\<close>

definition py_whitespace :: "char set" where
  "py_whitespace =
     {CHR 0x09, CHR 0x0A, CHR 0x0B, CHR 0x0C, CHR 0x0D, CHR 0x1C, CHR 0x1D, CHR 0x1E,
      CHR 0x1F, CHR 0x20, CHR 0x85, CHR 0xA0}"

definition startswith :: "string \<Rightarrow> string \<Rightarrow> bool" where
  "startswith s p = prefix p s"

section \<open>config.py\<close>

definition SUPPORTED_EXTS :: "string set" where
  "SUPPORTED_EXTS =
     {''pdf'', ''txt'', ''md'', ''docx'', ''pptx'', ''csv'', ''json'', ''html'',
      ''py'', ''java'', ''rb'', ''tex'', ''c'', ''cpp''}"

definition MAX_FILE_SIZE_MB :: nat where
  "MAX_FILE_SIZE_MB = 200"

definition QUIZ_GENERATION_TIMEOUT :: nat where
  "QUIZ_GENERATION_TIMEOUT = 120"

definition CHAT_RESPONSE_TIMEOUT :: nat where
  "CHAT_RESPONSE_TIMEOUT = 120"

section \<open>utils.py: file names and sizes\<close>

text \<open>
  \<open>Path(filename).name\<close> on a POSIX system: the last component of the path, where empty
  components and \<open>.\<close> components do not count; the empty string when there is none.
\<close>

fun split_sep :: "string \<Rightarrow> string \<Rightarrow> string list" where
  "split_sep acc [] = [rev acc]"
| "split_sep acc (c # cs) =
     (if c = CHR ''/'' then rev acc # split_sep [] cs else split_sep (c # acc) cs)"

definition path_name :: "string \<Rightarrow> string" where
  "path_name p =
     (case rev (filter (\<lambda>part. part \<noteq> [] \<and> part \<noteq> ''.'') (split_sep [] p)) of
        [] \<Rightarrow> []
      | part # _ \<Rightarrow> part)"

text \<open>
  \<open>Path(filename).suffix\<close>: with \<open>i\<close> the index of the last dot of the name, the suffix
  is \<open>name[i:]\<close> when \<open>0 < i < len(name) - 1\<close> and the empty string otherwise.
\<close>

definition rfind_dot :: "string \<Rightarrow> nat option" where
  "rfind_dot s =
     (case dropWhile (\<lambda>c. c \<noteq> CHR ''.'') (rev s) of
        [] \<Rightarrow> None
      | _ # before \<Rightarrow> Some (length before))"

definition path_suffix :: "string \<Rightarrow> string" where
  "path_suffix p =
     (let name = path_name p
      in case rfind_dot name of
           None \<Rightarrow> []
         | Some i \<Rightarrow> if 0 < i \<and> i + 1 < length name then drop i name else [])"

definition file_ext :: "string \<Rightarrow> string" where
  "file_ext filename = lstrip {CHR ''.''} (lower (path_suffix filename))"

definition validate_file_type :: "string \<Rightarrow> string set \<Rightarrow> bool" where
  "validate_file_type filename supported_extensions =
     (file_ext filename \<in> supported_extensions)"

text \<open>
  \<open>round(file_size_bytes / (1024 * 1024), 1)\<close>. Dividing an integer below \<open>2^53\<close> by
  \<open>2^20\<close> is exact in binary floating point, and \<open>round\<close> rounds the exact value of its
  argument to the nearest tenth, a tie to the even tenth. The result is the float nearest
  to that tenth; the model keeps the tenth itself, which compares with an integer limit as
  the float does.
\<close>

definition round_half_even :: "nat \<Rightarrow> nat \<Rightarrow> nat" where
  "round_half_even a b =
     (let q = a div b; r = a mod b
      in if 2 * r < b then q
         else if b < 2 * r then q + 1
         else if even q then q else q + 1)"

definition size_tenths :: "nat \<Rightarrow> nat" where
  "size_tenths file_size_bytes = round_half_even (10 * file_size_bytes) (1024 * 1024)"

definition get_file_size_mb :: "nat \<Rightarrow> rat" where
  "get_file_size_mb file_size_bytes = of_nat (size_tenths file_size_bytes) / 10"

text \<open>\<open>create_temp_filename\<close>, given the value of \<open>int(time.time())\<close>.\<close>

definition create_temp_filename :: "nat \<Rightarrow> string \<Rightarrow> string" where
  "create_temp_filename timestamp original_name =
     ''temp_'' @ str_nat timestamp @ ''_'' @ original_name"

section \<open>file\_manager.py\<close>

record uploaded_file =
  original_name :: string
  temp_path :: string
  file_id :: string
  file_size_mb :: rat
  file_type :: string
  upload_time :: rat

record file_manager =
  uploaded_files :: "uploaded_file list"
  vector_store_id :: "string option"
  assistant_id :: "string option"

text \<open>\<open>FileManager()\<close>.\<close>

definition new_file_manager :: file_manager where
  "new_file_manager = \<lparr>uploaded_files = [], vector_store_id = None, assistant_id = None\<rparr>"

text \<open>The object Streamlit hands over for an uploaded file.\<close>

record file_data =
  file_name :: string
  file_size :: nat
  file_buffer :: string

text \<open>
  What \<open>add_file\<close> reads from its environment: the clock, twice, and whether writing the
  temporary copy succeeds. The content of the local disk is not modelled.
\<close>

record add_io =
  timestamp :: nat
  write_error :: "string option"
  clock :: rat

text \<open>\<open>f"{file_size_mb}"\<close> of a float that is a number of tenths (below \<open>10^16\<close>).\<close>

definition str_tenths :: "nat \<Rightarrow> string" where
  "str_tenths k = str_nat (k div 10) @ ''.'' @ str_nat (k mod 10)"

definition add_file ::
  "add_io \<Rightarrow> file_manager \<Rightarrow> file_data \<Rightarrow> (error + uploaded_file) \<times> file_manager" where
  "add_file io fm fd =
     (if \<not> validate_file_type (file_name fd) SUPPORTED_EXTS
      then (Inl (ValueError (''File type not supported: '' @ file_name fd)), fm)
      else if get_file_size_mb (file_size fd) > of_nat MAX_FILE_SIZE_MB
      then (Inl (ValueError (''File too large: '' @ str_tenths (size_tenths (file_size fd))
                   @ ''MB (max: '' @ str_nat MAX_FILE_SIZE_MB @ ''MB)'')), fm)
      else
        (let temp_filename = create_temp_filename (timestamp io) (file_name fd)
         in case write_error io of
              Some msg \<Rightarrow> (Inl (OSError msg), fm)
            | None \<Rightarrow>
                (let file_info =
                       \<lparr>original_name = file_name fd,
                        temp_path = temp_filename,
                        file_id = [],
                        file_size_mb = get_file_size_mb (file_size fd),
                        file_type = file_ext (file_name fd),
                        upload_time = clock io\<rparr>
                 in (Inr file_info, fm\<lparr>uploaded_files := uploaded_files fm @ [file_info]\<rparr>))))"

fun get_file_by_name_in :: "uploaded_file list \<Rightarrow> string \<Rightarrow> uploaded_file option" where
  "get_file_by_name_in [] filename = None"
| "get_file_by_name_in (f # fs) filename =
     (if original_name f = filename then Some f else get_file_by_name_in fs filename)"

definition get_file_by_name :: "file_manager \<Rightarrow> string \<Rightarrow> uploaded_file option" where
  "get_file_by_name fm filename = get_file_by_name_in (uploaded_files fm) filename"

definition has_file_with_name :: "file_manager \<Rightarrow> string \<Rightarrow> bool" where
  "has_file_with_name fm filename =
     (\<exists>f \<in> set (uploaded_files fm). original_name f = filename)"

text \<open>\<open>remove_file\<close> pops the first entry with the name; \<open>cleanup_temp_file\<close> swallows
  every exception and touches the disk only.\<close>

fun remove_first :: "uploaded_file list \<Rightarrow> string \<Rightarrow> (uploaded_file list) option" where
  "remove_first [] filename = None"
| "remove_first (f # fs) filename =
     (if original_name f = filename then Some fs
      else map_option (\<lambda>r. f # r) (remove_first fs filename))"

definition remove_file :: "file_manager \<Rightarrow> string \<Rightarrow> bool \<times> file_manager" where
  "remove_file fm filename =
     (case remove_first (uploaded_files fm) filename of
        Some fs \<Rightarrow> (True, fm\<lparr>uploaded_files := fs\<rparr>)
      | None \<Rightarrow> (False, fm))"

definition get_all_file_ids :: "file_manager \<Rightarrow> string list" where
  "get_all_file_ids fm = filter (\<lambda>i. i \<noteq> []) (map file_id (uploaded_files fm))"

fun update_file_id_in :: "uploaded_file list \<Rightarrow> string \<Rightarrow> string \<Rightarrow> (uploaded_file list) option" where
  "update_file_id_in [] filename fid = None"
| "update_file_id_in (f # fs) filename fid =
     (if original_name f = filename then Some (f\<lparr>file_id := fid\<rparr> # fs)
      else map_option (\<lambda>r. f # r) (update_file_id_in fs filename fid))"

definition update_file_id :: "file_manager \<Rightarrow> string \<Rightarrow> string \<Rightarrow> bool \<times> file_manager" where
  "update_file_id fm filename fid =
     (case update_file_id_in (uploaded_files fm) filename fid of
        Some fs \<Rightarrow> (True, fm\<lparr>uploaded_files := fs\<rparr>)
      | None \<Rightarrow> (False, fm))"

definition has_files :: "file_manager \<Rightarrow> bool" where
  "has_files fm = (length (uploaded_files fm) > 0)"

definition needs_vector_store_update :: "file_manager \<Rightarrow> bool" where
  "needs_vector_store_update fm =
     (if uploaded_files fm = [] then truthy (vector_store_id fm) \<or> truthy (assistant_id fm)
      else if \<not> truthy (vector_store_id fm) then True
      else False)"

definition clear_vector_store_info :: "file_manager \<Rightarrow> file_manager" where
  "clear_vector_store_info fm = fm\<lparr>vector_store_id := None, assistant_id := None\<rparr>"

section \<open>openai\_client.py: the remote platform\<close>

text \<open>
  The remote platform answers each call with a value or with an exception. Its answers
  are the fields of \<open>sdk\<close>; the calls that were made are kept in a log, in order.
\<close>

record sdk =
  files_create :: "string \<Rightarrow> error + string"
  files_delete :: "string \<Rightarrow> error + unit"
  vector_stores_files_create :: "string \<Rightarrow> string \<Rightarrow> error + unit"
  vector_stores_files_delete :: "string \<Rightarrow> string \<Rightarrow> error + unit"

datatype remote_call =
    Files_create string
  | Files_delete string
  | Vector_stores_files_create string string
  | Vector_stores_files_delete string string

text \<open>
  The methods of a client object as \<open>FileManager\<close> and \<open>handle_file_upload\<close> call them:
  each may raise or return.
\<close>

record client =
  upload_file :: "string \<Rightarrow> error + string"
  delete_file :: "string \<Rightarrow> error + bool"
  attach_file_to_vector_store :: "string \<Rightarrow> string \<Rightarrow> error + unit"
  remove_file_from_vector_store :: "string \<Rightarrow> string \<Rightarrow> error + bool"

text \<open>
  \<open>StudyBuddyClient\<close>: \<open>upload_file\<close> logs and re-raises, \<open>attach_file_to_vector_store\<close>
  has no handler, \<open>delete_file\<close> and \<open>remove_file_from_vector_store\<close> catch every
  exception and return \<open>False\<close>.
\<close>

definition StudyBuddyClient :: "sdk \<Rightarrow> client" where
  "StudyBuddyClient api =
     \<lparr>upload_file = (\<lambda>filepath. files_create api filepath),
      delete_file = (\<lambda>fid.
        case files_delete api fid of Inl e \<Rightarrow> Inr False | Inr u \<Rightarrow> Inr True),
      attach_file_to_vector_store = (\<lambda>vs fid. vector_stores_files_create api vs fid),
      remove_file_from_vector_store = (\<lambda>vs fid.
        case vector_stores_files_delete api vs fid of Inl e \<Rightarrow> Inr False | Inr u \<Rightarrow> Inr True)\<rparr>"

section \<open>file\_manager.py: removal\<close>

text \<open>
  \<open>remove_file_from_openai\<close>. Both remote calls sit in their own \<open>try\<close>, whose handler
  only logs a warning, and the value a call returns is not read: every path after the
  lookup ends in \<open>return True\<close>.
\<close>

definition remove_file_from_openai ::
  "file_manager \<Rightarrow> string \<Rightarrow> client \<Rightarrow> remote_call list \<Rightarrow> bool \<times> remote_call list" where
  "remove_file_from_openai fm filename c calls =
     (case get_file_by_name fm filename of
        None \<Rightarrow> (False, calls)
      | Some file_info \<Rightarrow>
          (let calls1 =
                 (if truthy (vector_store_id fm) \<and> file_id file_info \<noteq> []
                  then (case remove_file_from_vector_store c (the (vector_store_id fm))
                               (file_id file_info) of
                          Inl e \<Rightarrow> calls @ [Vector_stores_files_delete
                                     (the (vector_store_id fm)) (file_id file_info)]
                        | Inr b \<Rightarrow> calls @ [Vector_stores_files_delete
                                     (the (vector_store_id fm)) (file_id file_info)])
                  else calls);
               calls2 =
                 (if file_id file_info \<noteq> []
                  then (case delete_file c (file_id file_info) of
                          Inl e \<Rightarrow> calls1 @ [Files_delete (file_id file_info)]
                        | Inr b \<Rightarrow> calls1 @ [Files_delete (file_id file_info)])
                  else calls1)
           in (True, calls2)))"

definition remove_file_completely ::
  "file_manager \<Rightarrow> string \<Rightarrow> client option \<Rightarrow> remote_call list
     \<Rightarrow> bool \<times> file_manager \<times> remote_call list" where
  "remove_file_completely fm filename openai_client calls =
     (let calls' =
            (case openai_client of
               None \<Rightarrow> calls
             | Some c \<Rightarrow> snd (remove_file_from_openai fm filename c calls))
      in (fst (remove_file fm filename), snd (remove_file fm filename), calls'))"

section \<open>main.py: uploads and removals\<close>

text \<open>What the sidebar shows, one constructor for each message of the script.\<close>

datatype notice =
    Uploaded_successfully string
  | Failed_to_upload string error
  | Removed_successfully string
  | Removed_locally_remote_cleanup_may_have_failed string

record session =
  manager :: file_manager
  remote_calls :: "remote_call list"
  sidebar :: "notice list"

text \<open>
  One turn of the loop of \<open>handle_file_upload\<close>: a name already tracked is skipped by
  \<open>continue\<close>; any exception ends the turn in the \<open>except\<close> branch, which reports it in
  the sidebar.
\<close>

definition upload_one :: "client \<Rightarrow> session \<Rightarrow> add_io \<times> file_data \<Rightarrow> session" where
  "upload_one c s p =
     (let io = fst p; uploaded_file = snd p
      in if has_file_with_name (manager s) (file_name uploaded_file) then s
         else
           (case add_file io (manager s) uploaded_file of
              (Inl e, fm1) \<Rightarrow>
                s\<lparr>manager := fm1,
                  sidebar := sidebar s @ [Failed_to_upload (file_name uploaded_file) e]\<rparr>
            | (Inr file_info, fm1) \<Rightarrow>
                (let calls1 = remote_calls s @ [Files_create (temp_path file_info)]
                 in case upload_file c (temp_path file_info) of
                      Inl e \<Rightarrow>
                        s\<lparr>manager := fm1, remote_calls := calls1,
                          sidebar := sidebar s @ [Failed_to_upload (file_name uploaded_file) e]\<rparr>
                    | Inr fid \<Rightarrow>
                        (let fm2 = snd (update_file_id fm1 (original_name file_info) fid)
                         in if truthy (vector_store_id fm2)
                            then
                              (let calls2 = calls1 @ [Vector_stores_files_create
                                                        (the (vector_store_id fm2)) fid]
                               in case attach_file_to_vector_store c
                                         (the (vector_store_id fm2)) fid of
                                    Inl e \<Rightarrow>
                                      s\<lparr>manager := fm2, remote_calls := calls2,
                                        sidebar := sidebar s @
                                          [Failed_to_upload (file_name uploaded_file) e]\<rparr>
                                  | Inr u \<Rightarrow>
                                      s\<lparr>manager := fm2, remote_calls := calls2,
                                        sidebar := sidebar s @
                                          [Uploaded_successfully (file_name uploaded_file)]\<rparr>)
                            else
                              s\<lparr>manager := fm2, remote_calls := calls1,
                                sidebar := sidebar s @
                                  [Uploaded_successfully (file_name uploaded_file)]\<rparr>))))"

definition handle_file_upload ::
  "client \<Rightarrow> session \<Rightarrow> (add_io \<times> file_data) list \<Rightarrow> session" where
  "handle_file_upload c s files = foldl (upload_one c) s files"

text \<open>
  The handler of a remove button: the flag of \<open>remove_file_completely\<close> chooses between
  the success message and the warning.
\<close>

definition remove_button :: "client \<Rightarrow> session \<Rightarrow> string \<Rightarrow> session" where
  "remove_button c s filename =
     (case remove_file_completely (manager s) filename (Some c) (remote_calls s) of
        (success, fm', calls') \<Rightarrow>
          s\<lparr>manager := fm', remote_calls := calls',
            sidebar := sidebar s @
              [if success then Removed_successfully filename
               else Removed_locally_remote_cleanup_may_have_failed filename]\<rparr>)"

section \<open>The JSON decoder\<close>

text \<open>
  \<open>json.loads\<close> of the standard library, as \<open>extract_first_json_array\<close> calls it: the
  decoder of CPython 3.12 with its default settings. A decoded string is a list of code
  points, since an escape \<open>\uXXXX\<close> can denote one above U+00FF. A float is kept as
  the literal it was read from; its binary value is not modelled. An object is the list
  of its pairs in the order of a Python \<open>dict\<close>: a repeated key keeps its first
  place and takes the last value. The limits of the interpreter (recursion depth, the
  length of an integer literal) are not modelled.
\<close>

datatype json =
    JNull
  | JBool bool
  | JInt int
  | JFloat string
  | JStr "nat list"
  | JArr "json list"
  | JObj "(nat list \<times> json) list"

text \<open>The code points of a text.\<close>

definition codes :: "string \<Rightarrow> nat list" where
  "codes s = map of_char s"

text \<open>A scan fails with a message and a position, or returns a value, the text that is
  left and the position where it starts.\<close>

type_synonym 'a scan = "(string \<times> nat) + ('a \<times> string \<times> nat)"

definition json_ws :: "char \<Rightarrow> bool" where
  "json_ws c = (c = CHR '' '' \<or> c = CHR 0x09 \<or> c = CHR 0x0A \<or> c = CHR 0x0D)"

fun skip_ws :: "string \<Rightarrow> nat \<Rightarrow> string \<times> nat" where
  "skip_ws [] i = ([], i)"
| "skip_ws (c # cs) i = (if json_ws c then skip_ws cs (Suc i) else (c # cs, i))"

definition is_digit :: "char \<Rightarrow> bool" where
  "is_digit c = (48 \<le> (of_char c :: nat) \<and> (of_char c :: nat) \<le> 57)"

definition hex_val :: "char \<Rightarrow> nat option" where
  "hex_val c =
     (let n = (of_char c :: nat)
      in if 48 \<le> n \<and> n \<le> 57 then Some (n - 48)
         else if 97 \<le> n \<and> n \<le> 102 then Some (n - 87)
         else if 65 \<le> n \<and> n \<le> 70 then Some (n - 55)
         else None)"

text \<open>Four hexadecimal digits at the head of a text.\<close>

definition decode_uXXXX :: "string \<Rightarrow> nat option" where
  "decode_uXXXX cs =
     (case map hex_val (take 4 cs) of
        [Some a, Some b, Some c, Some d] \<Rightarrow> Some (((a * 16 + b) * 16 + c) * 16 + d)
      | _ \<Rightarrow> None)"

definition escape_char :: "char \<Rightarrow> nat option" where
  "escape_char e =
     (if e = CHR 0x22 then Some 0x22
      else if e = CHR 0x5C then Some 0x5C
      else if e = CHR ''/'' then Some 0x2F
      else if e = CHR ''b'' then Some 0x08
      else if e = CHR ''f'' then Some 0x0C
      else if e = CHR ''n'' then Some 0x0A
      else if e = CHR ''r'' then Some 0x0D
      else if e = CHR ''t'' then Some 0x09
      else None)"

definition expecting_comma :: string where
  "expecting_comma = ''Expecting '' @ [CHR 0x27] @ '','' @ [CHR 0x27] @ '' delimiter''"

definition expecting_colon :: string where
  "expecting_colon = ''Expecting '' @ [CHR 0x27] @ '':'' @ [CHR 0x27] @ '' delimiter''"

definition invalid_escape :: string where
  "invalid_escape = ''Invalid '' @ [CHR 0x5C] @ ''escape''"

definition invalid_uXXXX :: string where
  "invalid_uXXXX = ''Invalid '' @ [CHR 0x5C] @ ''uXXXX escape''"

text \<open>
  \<open>scanstring\<close> reads a string literal after its opening quote, which stands at
  \<open>begin\<close>. An escape \<open>\u\<close> of a high surrogate that is followed by an escape of a low
  surrogate gives the one code point of the pair.
\<close>

function scanstring :: "nat \<Rightarrow> string \<Rightarrow> nat \<Rightarrow> nat list \<Rightarrow> (nat list) scan" where
  "scanstring begin [] i acc = Inl (''Unterminated string starting at'', begin)"
| "scanstring begin (c # cs) i acc =
     (if c = CHR 0x22 then Inr (acc, cs, Suc i)
      else if c = CHR 0x5C then
        (case cs of
           [] \<Rightarrow> Inl (''Unterminated string starting at'', begin)
         | e # r \<Rightarrow>
             if e \<noteq> CHR ''u'' then
               (case escape_char e of
                  None \<Rightarrow> Inl (invalid_escape, i)
                | Some n \<Rightarrow> scanstring begin r (i + 2) (acc @ [n]))
             else if length r < 4 then Inl (invalid_uXXXX, i + 1)
             else
               (case decode_uXXXX r of
                  None \<Rightarrow> Inl (invalid_uXXXX, i + 1)
                | Some u \<Rightarrow>
                    if 0xD800 \<le> u \<and> u \<le> 0xDBFF \<and> 10 \<le> length r
                       \<and> take 2 (drop 4 r) = [CHR 0x5C, CHR ''u'']
                    then
                      (case decode_uXXXX (drop 6 r) of
                         None \<Rightarrow> Inl (invalid_uXXXX, i + 7)
                       | Some u2 \<Rightarrow>
                           if 0xDC00 \<le> u2 \<and> u2 \<le> 0xDFFF
                           then scanstring begin (drop 10 r) (i + 12)
                                  (acc @ [0x10000 + (u - 0xD800) * 1024 + (u2 - 0xDC00)])
                           else scanstring begin (drop 4 r) (i + 6) (acc @ [u]))
                    else scanstring begin (drop 4 r) (i + 6) (acc @ [u])))
      else if (of_char c :: nat) \<le> 0x1F then Inl (''Invalid control character at'', i)
      else scanstring begin cs (Suc i) (acc @ [of_char c]))"
  by pat_completeness auto
termination
  by (relation "measure (\<lambda>(begin, cs, i, acc). length cs)") auto

text \<open>A number: an optional sign, \<open>0\<close> or a digit from 1 to 9 and more digits, an optional
  fraction, an optional exponent. With neither fraction nor exponent it is an integer.\<close>

fun int_of_digits :: "int \<Rightarrow> string \<Rightarrow> int" where
  "int_of_digits acc [] = acc"
| "int_of_digits acc (d # ds) = int_of_digits (10 * acc + (int (of_char d) - 48)) ds"

definition match_number :: "string \<Rightarrow> nat \<Rightarrow> json scan" where
  "match_number cs i =
     (let neg = (case cs of [] \<Rightarrow> False | c # r \<Rightarrow> c = CHR ''-'');
          r0 = (if neg then tl cs else cs)
      in case r0 of
           [] \<Rightarrow> Inl (''Expecting value'', i)
         | d # r1 \<Rightarrow>
             if \<not> is_digit d then Inl (''Expecting value'', i)
             else
               (let intpart = (if d = CHR ''0'' then [d] else d # takeWhile is_digit r1);
                    r2 = (if d = CHR ''0'' then r1 else dropWhile is_digit r1);
                    frac = (case r2 of
                              p # f # r3 \<Rightarrow>
                                if p = CHR ''.'' \<and> is_digit f
                                then p # f # takeWhile is_digit r3 else []
                            | _ \<Rightarrow> []);
                    r4 = drop (length frac) r2;
                    exp = (case r4 of
                             [] \<Rightarrow> []
                           | e # r5 \<Rightarrow>
                               if e = CHR ''e'' \<or> e = CHR ''E'' then
                                 (let sgn = (case r5 of
                                               [] \<Rightarrow> []
                                             | s # r6 \<Rightarrow>
                                                 if s = CHR ''-'' \<or> s = CHR ''+''
                                                 then [s] else []);
                                      ds = takeWhile is_digit (drop (length sgn) r5)
                                  in if ds = [] then [] else e # sgn @ ds)
                               else []);
                    r7 = drop (length exp) r4;
                    lexeme = (if neg then ''-'' else []) @ intpart @ frac @ exp
                in if frac = [] \<and> exp = []
                   then Inr (JInt ((if neg then - 1 else 1) * int_of_digits 0 intpart),
                             r7, i + length lexeme)
                   else Inr (JFloat lexeme, r7, i + length lexeme)))"

text \<open>\<open>dict(pairs)\<close>: a key that is there already keeps its place and takes the new value.\<close>

fun dict_set :: "(nat list \<times> json) list \<Rightarrow> nat list \<Rightarrow> json \<Rightarrow> (nat list \<times> json) list" where
  "dict_set [] k v = [(k, v)]"
| "dict_set ((k', v') # kvs) k v =
     (if k' = k then (k, v) # kvs else (k', v') # dict_set kvs k v)"

text \<open>
  \<open>scan_once\<close> reads one value; \<open>parse_array\<close> stands at the start of an element and
  \<open>parse_object\<close> at the start of a key. The first argument bounds the number of calls
  that may still follow one another: \<open>json_loads\<close> starts with twice the length of the
  text plus two, and a scan that uses the bound up fails with the message \<open>out of fuel\<close>.
\<close>

fun scan_once :: "nat \<Rightarrow> string \<Rightarrow> nat \<Rightarrow> json scan"
  and parse_array :: "nat \<Rightarrow> string \<Rightarrow> nat \<Rightarrow> json list \<Rightarrow> json scan"
  and parse_object :: "nat \<Rightarrow> string \<Rightarrow> nat \<Rightarrow> (nat list \<times> json) list \<Rightarrow> json scan" where
  "scan_once 0 cs i = Inl (''out of fuel'', i)"
| "scan_once (Suc k) [] i = Inl (''Expecting value'', i)"
| "scan_once (Suc k) (c # r) i =
     (if c = CHR 0x22 then
        (case scanstring i r (Suc i) [] of
           Inl e \<Rightarrow> Inl e
         | Inr (s, rest, j) \<Rightarrow> Inr (JStr s, rest, j))
      else if c = CHR ''{'' then
        (case skip_ws r (Suc i) of
           (r1, i1) \<Rightarrow>
             (case r1 of
                [] \<Rightarrow> parse_object k r1 i1 []
              | c1 # r2 \<Rightarrow>
                  if c1 = CHR ''}'' then Inr (JObj [], r2, Suc i1)
                  else parse_object k r1 i1 []))
      else if c = CHR ''['' then
        (case skip_ws r (Suc i) of
           (r1, i1) \<Rightarrow>
             (case r1 of
                [] \<Rightarrow> parse_array k r1 i1 []
              | c1 # r2 \<Rightarrow>
                  if c1 = CHR '']'' then Inr (JArr [], r2, Suc i1)
                  else parse_array k r1 i1 []))
      else if prefix ''null'' (c # r) then Inr (JNull, drop 3 r, i + 4)
      else if prefix ''true'' (c # r) then Inr (JBool True, drop 3 r, i + 4)
      else if prefix ''false'' (c # r) then Inr (JBool False, drop 4 r, i + 5)
      else if prefix ''NaN'' (c # r) then Inr (JFloat ''NaN'', drop 2 r, i + 3)
      else if prefix ''Infinity'' (c # r) then Inr (JFloat ''Infinity'', drop 7 r, i + 8)
      else if prefix ''-Infinity'' (c # r) then Inr (JFloat ''-Infinity'', drop 8 r, i + 9)
      else match_number (c # r) i)"
| "parse_array 0 cs i acc = Inl (''out of fuel'', i)"
| "parse_array (Suc k) cs i acc =
     (case scan_once k cs i of
        Inl e \<Rightarrow> Inl e
      | Inr (v, r1, i1) \<Rightarrow>
          (case skip_ws r1 i1 of
             (r2, i2) \<Rightarrow>
               (case r2 of
                  [] \<Rightarrow> Inl (expecting_comma, i2)
                | c # r3 \<Rightarrow>
                    if c = CHR '']'' then Inr (JArr (acc @ [v]), r3, Suc i2)
                    else if c = CHR '','' then
                      (case skip_ws r3 (Suc i2) of
                         (r4, i4) \<Rightarrow> parse_array k r4 i4 (acc @ [v]))
                    else Inl (expecting_comma, i2))))"
| "parse_object 0 cs i acc = Inl (''out of fuel'', i)"
| "parse_object (Suc k) [] i acc =
     Inl (''Expecting property name enclosed in double quotes'', i)"
| "parse_object (Suc k) (c # r) i acc =
     (if c \<noteq> CHR 0x22 then Inl (''Expecting property name enclosed in double quotes'', i)
      else
        (case scanstring i r (Suc i) [] of
           Inl e \<Rightarrow> Inl e
         | Inr (key, r1, i1) \<Rightarrow>
             (case skip_ws r1 i1 of
                (r2, i2) \<Rightarrow>
                  (case r2 of
                     [] \<Rightarrow> Inl (expecting_colon, i2)
                   | c2 # r3 \<Rightarrow>
                       if c2 \<noteq> CHR '':''
                       then Inl (expecting_colon, i2)
                       else
                         (case skip_ws r3 (Suc i2) of
                            (r4, i4) \<Rightarrow>
                              (case scan_once k r4 i4 of
                                 Inl e \<Rightarrow> Inl e
                               | Inr (v, r5, i5) \<Rightarrow>
                                   (case skip_ws r5 i5 of
                                      (r6, i6) \<Rightarrow>
                                        (case r6 of
                                           [] \<Rightarrow> Inl (expecting_comma, i6)
                                         | c6 # r7 \<Rightarrow>
                                             if c6 = CHR ''}''
                                             then Inr (JObj (dict_set acc key v), r7, Suc i6)
                                             else if c6 = CHR '',''
                                             then
                                               (case skip_ws r7 (Suc i6) of
                                                  (r8, i8) \<Rightarrow>
                                                    parse_object k r8 i8 (dict_set acc key v))
                                             else Inl (expecting_comma, i6)))))))))"

text \<open>\<open>str(e)\<close> of a \<open>JSONDecodeError\<close>: the message, then the line, the column and the
  index of the position in the document.\<close>

definition errmsg :: "string \<Rightarrow> string \<Rightarrow> nat \<Rightarrow> string" where
  "errmsg msg doc pos =
     (let upto = take pos doc;
          lineno = length (filter (\<lambda>c. c = CHR 0x0A) upto) + 1;
          colno = length (takeWhile (\<lambda>c. c \<noteq> CHR 0x0A) (rev upto)) + 1
      in msg @ '': line '' @ str_nat lineno @ '' column '' @ str_nat colno
           @ '' (char '' @ str_nat pos @ '')'')"

text \<open>\<open>json.loads(s)\<close>: the value, or the text of the exception.\<close>

definition json_loads :: "string \<Rightarrow> string + json" where
  "json_loads s =
     (case skip_ws s 0 of
        (r0, i0) \<Rightarrow>
          (case scan_once (2 * length s + 2) r0 i0 of
             Inl (msg, pos) \<Rightarrow> Inl (errmsg msg s pos)
           | Inr (v, r1, i1) \<Rightarrow>
               (case skip_ws r1 i1 of
                  (r2, i2) \<Rightarrow>
                    if r2 = [] then Inr v else Inl (errmsg ''Extra data'' s i2))))"

section \<open>utils.py: extracting the quiz\<close>

text \<open>The first step of \<open>extract_first_json_array\<close>: a text that starts with a code fence,
  once stripped, loses its fence marks and a \<open>json\<close> tag line.\<close>

definition fence_chars :: "char set" where
  "fence_chars = {CHR 0x60, CHR 0x0A, CHR '' ''}"

definition strip_code_fences :: "string \<Rightarrow> string" where
  "strip_code_fences text =
     (if startswith (strip py_whitespace text) [CHR 0x60, CHR 0x60, CHR 0x60]
      then
        (let cleaned = strip fence_chars (strip py_whitespace text);
             cleaned' = (if startswith cleaned (''json'' @ [CHR 0x0A])
                         then drop (length (''json'' @ [CHR 0x0A])) cleaned else cleaned)
         in strip fence_chars cleaned')
      else text)"

text \<open>
  \<open>re.search(r"\[.*\]", text, flags=re.DOTALL)\<close>: the match starts at the first opening
  bracket and, the star being greedy and the dot matching every character, it ends at
  the last closing bracket after it; there is none when no closing bracket follows the
  first opening one.
\<close>

definition regex_array_block :: "string \<Rightarrow> string option" where
  "regex_array_block text =
     (let from_open = dropWhile (\<lambda>c. c \<noteq> CHR ''['') text;
          span = rev (dropWhile (\<lambda>c. c \<noteq> CHR '']'') (rev from_open))
      in if span = [] then None else Some span)"

text \<open>The loop over the characters: \<open>start\<close> and \<open>depth\<close> as the code keeps them; the
  result is the pair \<open>(start, i)\<close> at which the loop appends a candidate and breaks.\<close>

fun scan_brackets :: "string \<Rightarrow> nat \<Rightarrow> nat option \<Rightarrow> nat \<Rightarrow> (nat \<times> nat) option" where
  "scan_brackets [] i start depth = None"
| "scan_brackets (ch # rest) i start depth =
     (if ch = CHR ''['' then
        scan_brackets rest (Suc i) (if depth = 0 then Some i else start) (depth + 1)
      else if ch = CHR '']'' then
        (if depth > 0 then
           (case start of
              Some st \<Rightarrow>
                if depth - 1 = 0 then Some (st, i)
                else scan_brackets rest (Suc i) start (depth - 1)
            | None \<Rightarrow> scan_brackets rest (Suc i) start (depth - 1))
         else scan_brackets rest (Suc i) start depth)
      else scan_brackets rest (Suc i) start depth)"

definition candidates :: "string \<Rightarrow> string list" where
  "candidates text =
     (case regex_array_block text of None \<Rightarrow> [] | Some m \<Rightarrow> [m])
     @ (case scan_brackets text 0 None 0 of
          None \<Rightarrow> []
        | Some (st, i) \<Rightarrow> [take (i + 1 - st) (drop st text)])"

text \<open>The loop over the candidates returns the first that parses.\<close>

fun try_candidates :: "(string \<Rightarrow> string + json) \<Rightarrow> string list \<Rightarrow> json option" where
  "try_candidates loads [] = None"
| "try_candidates loads (cand # cands) =
     (case loads cand of Inr v \<Rightarrow> Some v | Inl e \<Rightarrow> try_candidates loads cands)"

text \<open>\<open>extract_first_json_array\<close>, with \<open>json.loads\<close> as its first argument.\<close>

definition extract_first_json_array :: "(string \<Rightarrow> string + json) \<Rightarrow> string \<Rightarrow> error + json" where
  "extract_first_json_array loads text =
     (let text' = strip_code_fences text
      in case try_candidates loads (candidates text') of
           Some v \<Rightarrow> Inr v
         | None \<Rightarrow>
             (case loads text' of
                Inr v \<Rightarrow> Inr v
              | Inl e \<Rightarrow> Inl (ValueError (''Could not parse quiz data: '' @ e))))"

section \<open>openai\_client.py: waiting for a run\<close>

text \<open>\<open>str(n)\<close> of an integer.\<close>

definition str_int :: "int \<Rightarrow> string" where
  "str_int n = (if n < 0 then ''-'' @ str_nat (nat (- n)) else str_nat (nat n))"

text \<open>A run object, as far as the program reads it.\<close>

record run =
  run_id :: string
  status :: string

definition terminal_statuses :: "string set" where
  "terminal_statuses = {''completed'', ''failed'', ''cancelled'', ''expired''}"

text \<open>
  What \<open>wait_for_run_completion\<close> reads from its environment: \<open>time_at k\<close> is what the
  \<open>k\<close>-th call of \<open>time.time()\<close> returns, the call that sets \<open>start_time\<close> being call 0,
  and \<open>retrieve_at k\<close> is what the \<open>k\<close>-th call of \<open>runs.retrieve\<close> does, counted from 0:
  it raises or returns the run. Sleeping changes nothing but the later readings of the
  clock.
\<close>

record poll_env =
  time_at :: "nat \<Rightarrow> rat"
  retrieve_at :: "nat \<Rightarrow> error + run"

text \<open>
  The loop of \<open>wait_for_run_completion\<close>, at its \<open>k\<close>-th turn. Nothing bounds the number
  of turns, so the loop is a partial function: \<open>None\<close> stands for a loop that never ends.
\<close>

partial_function (option) poll_loop :: "poll_env \<Rightarrow> int \<Rightarrow> nat \<Rightarrow> (error + run) option" where
  "poll_loop env timeout k =
     (if time_at env (Suc k) - time_at env 0 > of_int timeout
      then Some (Inl (RuntimeError (''Run timed out after '' @ str_int timeout @ '' seconds'')))
      else
        (case retrieve_at env k of
           Inl e \<Rightarrow> Some (Inl e)
         | Inr r \<Rightarrow>
             if status r \<in> terminal_statuses then Some (Inr r)
             else poll_loop env timeout (Suc k)))"

definition wait_for_run_completion :: "poll_env \<Rightarrow> int \<Rightarrow> (error + run) option" where
  "wait_for_run_completion env timeout = poll_loop env timeout 0"

section \<open>main.py: grading a quiz\<close>

text \<open>
  An item of the stored quiz, in the shape the quiz prompt asks for: the question, the
  options and the correct option are strings. A selection is the option the radio button
  returns, or \<open>None\<close> when the item offers no option.
\<close>

record quiz_item =
  question :: string
  options :: "string list"
  correct :: string

text \<open>A line of the result list: \<open>Question n: Correct!\<close> or \<open>Question n: Incorrect. The
  correct answer is: ...\<close>.\<close>

datatype result_line =
    Question_correct nat
  | Question_incorrect nat string

text \<open>The loop of the submit block over \<open>enumerate(quiz_data)\<close>, with \<open>score\<close> and
  \<open>results\<close> as the code keeps them.\<close>

fun grade_loop ::
  "quiz_item list \<Rightarrow> (nat \<Rightarrow> string option) \<Rightarrow> nat \<Rightarrow> nat \<Rightarrow> result_line list
     \<Rightarrow> nat \<times> result_line list" where
  "grade_loop [] user_answers idx score results = (score, results)"
| "grade_loop (q # qs) user_answers idx score results =
     (let correct_answer = correct q;
          user_answer = user_answers idx
      in if user_answer = Some correct_answer
         then grade_loop qs user_answers (Suc idx) (score + 1)
                (results @ [Question_correct (idx + 1)])
         else grade_loop qs user_answers (Suc idx) score
                (results @ [Question_incorrect (idx + 1) correct_answer]))"

text \<open>The submit block: the score, the number of items it is out of, and the result lines.\<close>

definition submit_quiz ::
  "quiz_item list \<Rightarrow> (nat \<Rightarrow> string option) \<Rightarrow> nat \<times> nat \<times> result_line list" where
  "submit_quiz quiz_data user_answers =
     (case grade_loop quiz_data user_answers 0 0 [] of
        (score, results) \<Rightarrow> (score, length quiz_data, results))"

section \<open>Properties of the registry\<close>

subsection \<open>When the index needs a resync\<close>

text \<open>
  C4. \<open>needs_vector_store_update\<close> is true exactly when no document is tracked and an
  index id or an assistant id is recorded, or documents are tracked and no index id is
  recorded; an id is recorded when it is neither \<open>None\<close> nor the empty string. The answer
  does not look at the documents themselves: with documents tracked and an index id
  recorded it is false whatever remote ids the documents carry, so an index that covers
  only some of them is not noticed.
\<close>

theorem needs_vector_store_update_iff:
  "needs_vector_store_update fm =
     ((uploaded_files fm = [] \<and> (truthy (vector_store_id fm) \<or> truthy (assistant_id fm)))
      \<or> (uploaded_files fm \<noteq> [] \<and> \<not> truthy (vector_store_id fm)))
   \<and> (uploaded_files fm \<noteq> [] \<and> truthy (vector_store_id fm) \<longrightarrow>
        \<not> needs_vector_store_update
             (fm\<lparr>uploaded_files := map (\<lambda>f. f\<lparr>file_id := g f\<rparr>) (uploaded_files fm)\<rparr>))"
  by (auto simp: needs_vector_store_update_def)

theorem needs_vector_store_update_iff_witness:
  "uploaded_files
     \<lparr>uploaded_files =
        [\<lparr>original_name = ''a.pdf'', temp_path = ''temp_0_a.pdf'', file_id = ''file-1'',
          file_size_mb = 1, file_type = ''pdf'', upload_time = 0\<rparr>,
         \<lparr>original_name = ''b.pdf'', temp_path = ''temp_0_b.pdf'', file_id = ''file-2'',
          file_size_mb = 1, file_type = ''pdf'', upload_time = 0\<rparr>],
      vector_store_id = Some ''vs-1'', assistant_id = Some ''asst-1''\<rparr> \<noteq> []
   \<and> truthy (Some ''vs-1'')
   \<and> \<not> needs_vector_store_update
        \<lparr>uploaded_files =
           [\<lparr>original_name = ''a.pdf'', temp_path = ''temp_0_a.pdf'', file_id = ''file-1'',
             file_size_mb = 1, file_type = ''pdf'', upload_time = 0\<rparr>,
            \<lparr>original_name = ''b.pdf'', temp_path = ''temp_0_b.pdf'', file_id = [],
             file_size_mb = 1, file_type = ''pdf'', upload_time = 0\<rparr>],
         vector_store_id = Some ''vs-1'', assistant_id = Some ''asst-1''\<rparr>"
  using needs_vector_store_update_iff
    [of "\<lparr>uploaded_files =
            [\<lparr>original_name = ''a.pdf'', temp_path = ''temp_0_a.pdf'', file_id = ''file-1'',
              file_size_mb = 1, file_type = ''pdf'', upload_time = 0\<rparr>,
             \<lparr>original_name = ''b.pdf'', temp_path = ''temp_0_b.pdf'', file_id = ''file-2'',
              file_size_mb = 1, file_type = ''pdf'', upload_time = 0\<rparr>],
          vector_store_id = Some ''vs-1'', assistant_id = Some ''asst-1''\<rparr>"
        "\<lambda>f. if original_name f = ''b.pdf'' then [] else file_id f"]
  by (simp add: truthy_def)

subsection \<open>The extension check\<close>

text \<open>Lower-casing leaves the separators and the dots of a file name where they are, so the
  suffix of the lower-cased name is the lower-cased suffix.\<close>

lemma lower_char_eq_slash [simp]: "(lower_char c = CHR ''/'') = (c = CHR ''/'')"
  by (auto simp: lower_char_def Let_def char_of_eq_iff take_bit_eq_mod)

lemma lower_char_eq_dot [simp]: "(lower_char c = CHR ''.'') = (c = CHR ''.'')"
  by (auto simp: lower_char_def Let_def char_of_eq_iff take_bit_eq_mod)

lemma split_sep_lower:
  "split_sep (map lower_char acc) (map lower_char cs) = map (map lower_char) (split_sep acc cs)"
proof (induction cs arbitrary: acc)
  case Nil
  show ?case by (simp add: rev_map)
next
  case (Cons a cs)
  show ?case
    using Cons.IH [of "[]"] Cons.IH [of "a # acc"] by (simp add: rev_map)
qed

lemma map_lower_eq_dot: "(map lower_char s = ''.'') = (s = ''.'')"
  by (cases s) auto

lemma path_name_lower: "path_name (map lower_char p) = map lower_char (path_name p)"
proof -
  have s: "split_sep [] (map lower_char p) = map (map lower_char) (split_sep [] p)"
    using split_sep_lower [of "[]" p] by simp
  have f: "filter (\<lambda>part. part \<noteq> [] \<and> part \<noteq> ''.'') (map (map lower_char) xs) =
           map (map lower_char) (filter (\<lambda>part. part \<noteq> [] \<and> part \<noteq> ''.'') xs)" for xs
    by (induction xs) (simp_all add: map_lower_eq_dot)
  show ?thesis
    unfolding path_name_def s f rev_map
    by (cases "rev (filter (\<lambda>part. part \<noteq> [] \<and> part \<noteq> ''.'') (split_sep [] p))") simp_all
qed

lemma rfind_dot_lower: "rfind_dot (map lower_char s) = rfind_dot s"
proof -
  have d: "dropWhile (\<lambda>c. c \<noteq> CHR ''.'') (rev (map lower_char s)) =
           map lower_char (dropWhile (\<lambda>c. c \<noteq> CHR ''.'') (rev s))"
    by (simp add: rev_map dropWhile_map comp_def)
  have c: "(case map lower_char xs of [] \<Rightarrow> None | x # before \<Rightarrow> Some (length before)) =
           (case xs of [] \<Rightarrow> None | x # before \<Rightarrow> Some (length before))" for xs
    by (cases xs) simp_all
  show ?thesis
    unfolding rfind_dot_def d c ..
qed

lemma path_suffix_lower: "path_suffix (lower p) = lower (path_suffix p)"
  by (simp add: lower_def path_suffix_def Let_def path_name_lower rfind_dot_lower drop_map
           split: option.splits)

lemma lstrip_dot_lower: "lstrip {CHR ''.''} (lower s) = lower (lstrip {CHR ''.''} s)"
  by (simp add: lstrip_def lower_def dropWhile_map comp_def)

lemma file_ext_of_lower: "file_ext filename = lstrip {CHR ''.''} (path_suffix (lower filename))"
  by (simp add: file_ext_def path_suffix_lower)

text \<open>
  C9. The extension check does not look at letter case. \<open>validate_file_type\<close> holds
  exactly when the lower-cased extension of the name (its suffix without the dot) is in
  the allow-list; two names that differ in letter case only get the same answer;
  \<open>add_file\<close> raises its unsupported-type error exactly when the lower-cased extension is
  outside \<open>SUPPORTED_EXTS\<close>; and \<open>notes.PDF\<close> passes although \<open>PDF\<close> is not an entry of
  the list.
\<close>

theorem validate_file_type_case_insensitive:
  "(validate_file_type filename exts \<longleftrightarrow>
      lower (lstrip {CHR ''.''} (path_suffix filename)) \<in> exts)
   \<and> (lower filename = lower other \<longrightarrow>
        validate_file_type filename exts = validate_file_type other exts)
   \<and> (fst (add_file io fm fd) =
          Inl (ValueError (''File type not supported: '' @ file_name fd))
        \<longleftrightarrow> lower (lstrip {CHR ''.''} (path_suffix (file_name fd))) \<notin> SUPPORTED_EXTS)
   \<and> validate_file_type ''notes.PDF'' SUPPORTED_EXTS
   \<and> ''PDF'' \<notin> SUPPORTED_EXTS"
proof (intro conjI)
  show a: "validate_file_type filename exts \<longleftrightarrow>
      lower (lstrip {CHR ''.''} (path_suffix filename)) \<in> exts" for filename exts
    by (simp add: validate_file_type_def file_ext_def lstrip_dot_lower)
  show "lower filename = lower other \<longrightarrow>
        validate_file_type filename exts = validate_file_type other exts"
    by (simp add: validate_file_type_def file_ext_of_lower)
  show "fst (add_file io fm fd) =
          Inl (ValueError (''File type not supported: '' @ file_name fd))
        \<longleftrightarrow> lower (lstrip {CHR ''.''} (path_suffix (file_name fd))) \<notin> SUPPORTED_EXTS"
    unfolding a [symmetric]
    by (simp add: add_file_def Let_def split: option.splits)
  show "validate_file_type ''notes.PDF'' SUPPORTED_EXTS"
    by code_simp
  show "''PDF'' \<notin> SUPPORTED_EXTS"
    by (simp add: SUPPORTED_EXTS_def)
qed

theorem validate_file_type_case_insensitive_witness:
  "lower ''Notes.Pdf'' = lower ''NOTES.pdf''
   \<and> validate_file_type ''Notes.Pdf'' SUPPORTED_EXTS
   \<and> validate_file_type ''NOTES.pdf'' SUPPORTED_EXTS"
proof -
  have l: "lower ''Notes.Pdf'' = lower ''NOTES.pdf''"
    by code_simp
  have v: "validate_file_type ''NOTES.pdf'' SUPPORTED_EXTS"
    by code_simp
  have "validate_file_type ''Notes.Pdf'' SUPPORTED_EXTS =
        validate_file_type ''NOTES.pdf'' SUPPORTED_EXTS"
    using l validate_file_type_case_insensitive
      [of "''Notes.Pdf''" SUPPORTED_EXTS "''NOTES.pdf''"]
    by blast
  with l v show ?thesis
    by simp
qed

subsection \<open>The size check\<close>

text \<open>The rounded size exceeds 200 MB from 209767629 bytes on: ten times that many bytes
  is the first multiple of ten above 2000.5 times \<open>2^20\<close>.\<close>

lemma size_tenths_gt: "(2000 < size_tenths b) = (209767629 \<le> b)"
proof -
  define q where "q = (10 * b) div 1048576"
  define r where "r = (10 * b) mod 1048576"
  have a: "10 * b = 1048576 * q + r"
    by (simp only: q_def r_def mult_div_mod_eq)
  have rb: "r < 1048576"
    unfolding r_def by (rule mod_less_divisor) simp
  have st: "size_tenths b =
      (if 2 * r < 1048576 then q else if 1048576 < 2 * r then q + 1
       else if even q then q else q + 1)"
    by (simp add: size_tenths_def round_half_even_def Let_def q_def r_def)
  show ?thesis
    unfolding st using a rb by (auto split: if_splits; arith)
qed

lemma size_tenths_accept: "size_tenths 209715201 = 2000"
  by (simp add: size_tenths_def round_half_even_def Let_def)

lemma too_large_iff:
  "(get_file_size_mb b > of_nat MAX_FILE_SIZE_MB) = (209767629 \<le> b)"
proof -
  have "(get_file_size_mb b > of_nat MAX_FILE_SIZE_MB) = (2000 < size_tenths b)"
    by (simp add: get_file_size_mb_def MAX_FILE_SIZE_MB_def)
  then show ?thesis
    by (simp add: size_tenths_gt)
qed

lemma str_nat_200: "str_nat MAX_FILE_SIZE_MB = ''200''"
  by code_simp

lemma add_file_rejects_size:
  assumes "validate_file_type (file_name fd) SUPPORTED_EXTS" and "209767629 \<le> file_size fd"
  shows "add_file io fm fd =
       (Inl (ValueError (''File too large: '' @ str_tenths (size_tenths (file_size fd))
               @ ''MB (max: 200MB)'')), fm)"
  using assms by (simp add: add_file_def too_large_iff str_nat_200)

text \<open>
  C8 (amended). \<open>add_file\<close> compares the size rounded to a tenth of a megabyte
  (\<open>2^20\<close> bytes) with \<open>MAX_FILE_SIZE_MB\<close>. For every document with a supported
  extension and a size of at least 209767629 bytes (the sizes whose rounded value is
  above 200), \<open>add_file\<close> raises its too-large error and leaves the registry as it
  was, and \<open>handle_file_upload\<close> on that document makes no remote call and leaves the
  registry as it was.
\<close>

theorem add_file_too_large:
  assumes "validate_file_type (file_name fd) SUPPORTED_EXTS" and "209767629 \<le> file_size fd"
  shows "add_file io fm fd =
       (Inl (ValueError (''File too large: '' @ str_tenths (size_tenths (file_size fd))
               @ ''MB (max: 200MB)'')), fm)
     \<and> manager (handle_file_upload c s [(io, fd)]) = manager s
     \<and> remote_calls (handle_file_upload c s [(io, fd)]) = remote_calls s"
  using assms
  by (simp add: add_file_rejects_size handle_file_upload_def upload_one_def Let_def)

theorem add_file_too_large_witness:
  "validate_file_type ''big.pdf'' SUPPORTED_EXTS \<and> (209767629::nat) \<le> 209767629
   \<and> add_file \<lparr>timestamp = 0, write_error = None, clock = 0\<rparr> new_file_manager
        \<lparr>file_name = ''big.pdf'', file_size = 209767629, file_buffer = []\<rparr> =
      (Inl (ValueError ''File too large: 200.1MB (max: 200MB)''), new_file_manager)"
proof -
  let ?fd = "\<lparr>file_name = ''big.pdf'', file_size = 209767629, file_buffer = []\<rparr>"
  have v0: "validate_file_type ''big.pdf'' SUPPORTED_EXTS"
    by code_simp
  then have v: "validate_file_type (file_name ?fd) SUPPORTED_EXTS"
    by simp
  have b: "209767629 \<le> file_size ?fd"
    by simp
  have s1: "size_tenths 209767629 = 2001"
    by (simp add: size_tenths_def round_half_even_def Let_def)
  have s2: "str_tenths 2001 = ''200.1''"
    by code_simp
  show ?thesis
    using v0 add_file_too_large
      [OF v b, of "\<lparr>timestamp = 0, write_error = None, clock = 0\<rparr>" new_file_manager]
    by (simp add: s1 s2)
qed

text \<open>
  The claim as stated fails one byte above 200 times \<open>2^20\<close> bytes: the size rounds to
  200.0, which is not above the limit, and the document is added.
\<close>

theorem add_file_too_large_counterexample:
  "200 * 1024 * 1024 < file_size \<lparr>file_name = ''a.pdf'', file_size = 209715201, file_buffer = []\<rparr>
   \<and> add_file \<lparr>timestamp = 0, write_error = None, clock = 0\<rparr> new_file_manager
        \<lparr>file_name = ''a.pdf'', file_size = 209715201, file_buffer = []\<rparr> =
      (Inr \<lparr>original_name = ''a.pdf'', temp_path = ''temp_0_a.pdf'', file_id = [],
            file_size_mb = 200, file_type = ''pdf'', upload_time = 0\<rparr>,
       \<lparr>uploaded_files =
          [\<lparr>original_name = ''a.pdf'', temp_path = ''temp_0_a.pdf'', file_id = [],
            file_size_mb = 200, file_type = ''pdf'', upload_time = 0\<rparr>],
        vector_store_id = None, assistant_id = None\<rparr>)"
proof -
  have v: "validate_file_type ''a.pdf'' SUPPORTED_EXTS" by code_simp
  have e: "file_ext ''a.pdf'' = ''pdf''" by code_simp
  have t: "create_temp_filename 0 ''a.pdf'' = ''temp_0_a.pdf''" by code_simp
  have g: "get_file_size_mb 209715201 = 200"
    by (simp add: get_file_size_mb_def size_tenths_accept)
  show ?thesis
    by (simp add: add_file_def v e t g MAX_FILE_SIZE_MB_def new_file_manager_def Let_def)
qed

subsection \<open>Duplicate names\<close>

lemma add_file_accepts:
  assumes "validate_file_type (file_name fd) SUPPORTED_EXTS"
      and "file_size fd < 209767629" and "write_error io = None"
  shows "add_file io fm fd =
     (Inr \<lparr>original_name = file_name fd,
           temp_path = create_temp_filename (timestamp io) (file_name fd),
           file_id = [],
           file_size_mb = get_file_size_mb (file_size fd),
           file_type = file_ext (file_name fd),
           upload_time = clock io\<rparr>,
      fm\<lparr>uploaded_files := uploaded_files fm @
           [\<lparr>original_name = file_name fd,
             temp_path = create_temp_filename (timestamp io) (file_name fd),
             file_id = [],
             file_size_mb = get_file_size_mb (file_size fd),
             file_type = file_ext (file_name fd),
             upload_time = clock io\<rparr>]\<rparr>)"
  using assms by (simp add: add_file_def too_large_iff Let_def)

text \<open>
  C1 (amended). \<open>handle_file_upload\<close> skips a document whose name is already tracked:
  no error is raised or shown, no remote call is made, and the session after the call
  (its tracked documents too) equals the session before it. \<open>add_file\<close> itself makes
  no check of the name: whenever the type check, the size check and the write pass, it
  appends an entry with the name of the document, tracked already or not.
\<close>

theorem duplicate_upload_skipped:
  "(has_file_with_name (manager s) (file_name fd) \<longrightarrow>
       handle_file_upload c s [(io, fd)] = s)
   \<and> (validate_file_type (file_name fd) SUPPORTED_EXTS \<and> file_size fd < 209767629
        \<and> write_error io = None \<longrightarrow>
       (\<exists>info. add_file io fm fd = (Inr info, fm\<lparr>uploaded_files := uploaded_files fm @ [info]\<rparr>)
              \<and> original_name info = file_name fd))"
  by (simp add: handle_file_upload_def upload_one_def Let_def add_file_accepts)

theorem duplicate_upload_skipped_witness:
  "has_file_with_name
     \<lparr>uploaded_files =
        [\<lparr>original_name = ''a.pdf'', temp_path = ''temp_0_a.pdf'', file_id = ''file-1'',
          file_size_mb = 0, file_type = ''pdf'', upload_time = 0\<rparr>],
      vector_store_id = None, assistant_id = None\<rparr> ''a.pdf''
   \<and> handle_file_upload
       (StudyBuddyClient
     \<lparr>files_create = (\<lambda>p. Inr ''file-2''), files_delete = (\<lambda>f. Inr ()),
      vector_stores_files_create = (\<lambda>v f. Inr ()),
      vector_stores_files_delete = (\<lambda>v f. Inr ())\<rparr>)
       \<lparr>manager =
     \<lparr>uploaded_files =
        [\<lparr>original_name = ''a.pdf'', temp_path = ''temp_0_a.pdf'', file_id = ''file-1'',
          file_size_mb = 0, file_type = ''pdf'', upload_time = 0\<rparr>],
      vector_store_id = None, assistant_id = None\<rparr>,
   remote_calls = [], sidebar = []\<rparr>
       [(\<lparr>timestamp = 5, write_error = None, clock = 5\<rparr>, \<lparr>file_name = ''a.pdf'', file_size = 1024, file_buffer = []\<rparr>)] =
     \<lparr>manager =
     \<lparr>uploaded_files =
        [\<lparr>original_name = ''a.pdf'', temp_path = ''temp_0_a.pdf'', file_id = ''file-1'',
          file_size_mb = 0, file_type = ''pdf'', upload_time = 0\<rparr>],
      vector_store_id = None, assistant_id = None\<rparr>,
   remote_calls = [], sidebar = []\<rparr>"
proof -
  let ?s = "\<lparr>manager =
     \<lparr>uploaded_files =
        [\<lparr>original_name = ''a.pdf'', temp_path = ''temp_0_a.pdf'', file_id = ''file-1'',
          file_size_mb = 0, file_type = ''pdf'', upload_time = 0\<rparr>],
      vector_store_id = None, assistant_id = None\<rparr>,
   remote_calls = [], sidebar = []\<rparr>"
  let ?fd = "\<lparr>file_name = ''a.pdf'', file_size = 1024, file_buffer = []\<rparr>"
  have h: "has_file_with_name (manager ?s) (file_name ?fd)"
    by (simp add: has_file_with_name_def)
  show ?thesis
    using h duplicate_upload_skipped [of ?s ?fd "(StudyBuddyClient
     \<lparr>files_create = (\<lambda>p. Inr ''file-2''), files_delete = (\<lambda>f. Inr ()),
      vector_stores_files_create = (\<lambda>v f. Inr ()),
      vector_stores_files_delete = (\<lambda>v f. Inr ())\<rparr>)" "\<lparr>timestamp = 5, write_error = None, clock = 5\<rparr>"]
    by simp
qed

text \<open>
  The claim as stated fails: \<open>add_file\<close> on a name that is tracked raises nothing and
  the list of tracked documents grows by a second entry of that name.
\<close>

theorem add_file_duplicate_counterexample:
  "has_file_with_name
     \<lparr>uploaded_files =
        [\<lparr>original_name = ''a.pdf'', temp_path = ''temp_0_a.pdf'', file_id = ''file-1'',
          file_size_mb = 0, file_type = ''pdf'', upload_time = 0\<rparr>],
      vector_store_id = None, assistant_id = None\<rparr> ''a.pdf''
   \<and> add_file \<lparr>timestamp = 5, write_error = None, clock = 5\<rparr>
       \<lparr>uploaded_files =
        [\<lparr>original_name = ''a.pdf'', temp_path = ''temp_0_a.pdf'', file_id = ''file-1'',
          file_size_mb = 0, file_type = ''pdf'', upload_time = 0\<rparr>],
      vector_store_id = None, assistant_id = None\<rparr>
       \<lparr>file_name = ''a.pdf'', file_size = 1024, file_buffer = []\<rparr> =
     (Inr \<lparr>original_name = ''a.pdf'', temp_path = ''temp_5_a.pdf'', file_id = [],
          file_size_mb = 0, file_type = ''pdf'', upload_time = 5\<rparr>,
      \<lparr>uploaded_files =
        [\<lparr>original_name = ''a.pdf'', temp_path = ''temp_0_a.pdf'', file_id = ''file-1'',
          file_size_mb = 0, file_type = ''pdf'', upload_time = 0\<rparr>,
         \<lparr>original_name = ''a.pdf'', temp_path = ''temp_5_a.pdf'', file_id = [],
          file_size_mb = 0, file_type = ''pdf'', upload_time = 5\<rparr>],
       vector_store_id = None, assistant_id = None\<rparr>)"
proof -
  have v: "validate_file_type ''a.pdf'' SUPPORTED_EXTS" by code_simp
  have e: "file_ext ''a.pdf'' = ''pdf''" by code_simp
  have t: "create_temp_filename 5 ''a.pdf'' = ''temp_5_a.pdf''" by code_simp
  have g: "get_file_size_mb 1024 = 0"
    by (simp add: get_file_size_mb_def size_tenths_def round_half_even_def Let_def)
  show ?thesis
    by (simp add: add_file_def v e t g MAX_FILE_SIZE_MB_def has_file_with_name_def Let_def)
qed

subsection \<open>Removal and remote cleanup\<close>

text \<open>The flag of \<open>remove_file_completely\<close> is that of the local removal alone, whatever
  the client does.\<close>

lemma remove_first_Some_iff:
  "(remove_first fs filename \<noteq> None) = (\<exists>f \<in> set fs. original_name f = filename)"
  by (induction fs) auto

lemma remove_file_completely_flag:
  "fst (remove_file_completely fm filename openai_client calls) = has_file_with_name fm filename"
  using remove_first_Some_iff [of "uploaded_files fm" filename]
  by (auto simp: remove_file_completely_def remove_file_def has_file_with_name_def Let_def
           split: option.splits)

text \<open>
  C2. The flag of a removal should tell a full cleanup from a removal that succeeded
  locally only. The code does not do so. With a document that was uploaded and attached
  to the index, and a remote platform that refuses both the detach and the delete, the
  two client methods report \<open>False\<close>, yet \<open>remove_file_completely\<close> returns \<open>True\<close> and
  the remove button shows its success message, not the warning it keeps for this case.
\<close>

theorem remove_file_completely_remote_failure:
  "delete_file
     (StudyBuddyClient
     \<lparr>files_create = (\<lambda>p. Inr ''file-1''),
      files_delete = (\<lambda>f. Inl (APIError ''Connection error.'')),
      vector_stores_files_create = (\<lambda>v f. Inr ()),
      vector_stores_files_delete = (\<lambda>v f. Inl (APIError ''Connection error.''))\<rparr>) ''file-1'' = Inr False
   \<and> remove_file_from_vector_store
     (StudyBuddyClient
     \<lparr>files_create = (\<lambda>p. Inr ''file-1''),
      files_delete = (\<lambda>f. Inl (APIError ''Connection error.'')),
      vector_stores_files_create = (\<lambda>v f. Inr ()),
      vector_stores_files_delete = (\<lambda>v f. Inl (APIError ''Connection error.''))\<rparr>) ''vs-1'' ''file-1'' = Inr False
   \<and> remove_file_completely
       \<lparr>uploaded_files =
        [\<lparr>original_name = ''a.pdf'', temp_path = ''temp_0_a.pdf'', file_id = ''file-1'',
          file_size_mb = 0, file_type = ''pdf'', upload_time = 0\<rparr>],
      vector_store_id = Some ''vs-1'', assistant_id = Some ''asst-1''\<rparr>
       ''a.pdf''
       (Some (StudyBuddyClient
     \<lparr>files_create = (\<lambda>p. Inr ''file-1''),
      files_delete = (\<lambda>f. Inl (APIError ''Connection error.'')),
      vector_stores_files_create = (\<lambda>v f. Inr ()),
      vector_stores_files_delete = (\<lambda>v f. Inl (APIError ''Connection error.''))\<rparr>)) [] =
     (True, \<lparr>uploaded_files = [], vector_store_id = Some ''vs-1'', assistant_id = Some ''asst-1''\<rparr>,
      [Vector_stores_files_delete ''vs-1'' ''file-1'', Files_delete ''file-1''])
   \<and> sidebar (remove_button
       (StudyBuddyClient
     \<lparr>files_create = (\<lambda>p. Inr ''file-1''),
      files_delete = (\<lambda>f. Inl (APIError ''Connection error.'')),
      vector_stores_files_create = (\<lambda>v f. Inr ()),
      vector_stores_files_delete = (\<lambda>v f. Inl (APIError ''Connection error.''))\<rparr>)
       \<lparr>manager = \<lparr>uploaded_files =
        [\<lparr>original_name = ''a.pdf'', temp_path = ''temp_0_a.pdf'', file_id = ''file-1'',
          file_size_mb = 0, file_type = ''pdf'', upload_time = 0\<rparr>],
      vector_store_id = Some ''vs-1'', assistant_id = Some ''asst-1''\<rparr>,
        remote_calls = [], sidebar = []\<rparr> ''a.pdf'') =
     [Removed_successfully ''a.pdf'']"
  by (simp add: remove_file_completely_def remove_file_from_openai_def remove_file_def
        remove_button_def get_file_by_name_def StudyBuddyClient_def truthy_def Let_def)

section \<open>Properties of the extraction\<close>

lemma try_candidates_None:
  "(\<forall>cand \<in> set cands. \<exists>e. loads cand = Inl e) \<Longrightarrow> try_candidates loads cands = None"
  by (induction cands) auto

text \<open>
  C3 (amended). When, in the text left after the fences are stripped, neither candidate
  (the span of the greedy bracket match, the first balanced bracket span) parses as JSON
  and that text does not parse either, \<open>extract_first_json_array\<close> raises
  \<open>ValueError\<close> with the message \<open>Could not parse quiz data:\<close> followed by the message
  of the decoder for the stripped text. The error carries that message, which names the
  kind and the position of the syntax error, and not the raw input. The statement holds
  for every decoder \<open>loads\<close>.
\<close>

theorem extract_fails_when_nothing_parses:
  assumes "\<forall>cand \<in> set (candidates (strip_code_fences text)). \<exists>e. loads cand = Inl e"
      and "loads (strip_code_fences text) = Inl e"
  shows "extract_first_json_array loads text =
           Inl (ValueError (''Could not parse quiz data: '' @ e))"
  using assms by (simp add: extract_first_json_array_def try_candidates_None)

theorem extract_fails_when_nothing_parses_witness:
  "candidates (strip_code_fences ''see [not json] here'') = [''[not json]'', ''[not json]'']
   \<and> json_loads ''[not json]'' = Inl ''Expecting value: line 1 column 2 (char 1)''
   \<and> json_loads (strip_code_fences ''see [not json] here'') =
         Inl ''Expecting value: line 1 column 1 (char 0)''
   \<and> extract_first_json_array json_loads ''see [not json] here'' =
         Inl (ValueError ''Could not parse quiz data: Expecting value: line 1 column 1 (char 0)'')"
proof -
  have c: "candidates (strip_code_fences ''see [not json] here'') = [''[not json]'', ''[not json]'']"
    by code_simp
  have l: "json_loads ''[not json]'' = Inl ''Expecting value: line 1 column 2 (char 1)''"
    by code_simp
  have w: "json_loads (strip_code_fences ''see [not json] here'') =
         Inl ''Expecting value: line 1 column 1 (char 0)''"
    by code_simp
  have h: "\<forall>cand \<in> set (candidates (strip_code_fences ''see [not json] here'')).
             \<exists>e. json_loads cand = Inl e"
    by (simp add: c l)
  show ?thesis
    using c l w extract_fails_when_nothing_parses [OF h w]
    by simp
qed

text \<open>
  The claim as stated fails on both counts. Two different texts without JSON raise the
  same error, whose message holds neither of them. And a text that does not parse, with
  no bracket span to try, is decoded all the same once its fences are stripped: a fenced
  JSON string that holds a bracket comes back as that string.
\<close>

theorem extract_error_counterexample:
  \<open>extract_first_json_array json_loads ''no json here'' =
      Inl (ValueError ''Could not parse quiz data: Expecting value: line 1 column 1 (char 0)'')
   \<and> extract_first_json_array json_loads ''still no json'' =
      Inl (ValueError ''Could not parse quiz data: Expecting value: line 1 column 1 (char 0)'')
   \<and> candidates ''```"["```'' = []
   \<and> json_loads ''```"["```'' = Inl ''Expecting value: line 1 column 1 (char 0)''
   \<and> extract_first_json_array json_loads ''```"["```'' = Inr (JStr (codes ''[''))\<close>
  by (intro conjI; code_simp)

text \<open>
  C5. On the text with leading prose, a fenced block tagged \<open>json\<close> that holds a quiz of
  one item, and trailing prose, \<open>extract_first_json_array\<close> returns the array of that
  one record, whose field \<open>correct\<close> is the string \<open>a\<close>.
\<close>

theorem extract_fenced_quiz:
  \<open>extract_first_json_array json_loads
     ''Sure! Here you go:\<newline>```json\<newline>[{"question":"Q","options":["a","b","c","d"],"correct":"a"}]\<newline>```\<newline>Hope that helps!'' =
   Inr (JArr [JObj [(codes ''question'', JStr (codes ''Q'')),
                    (codes ''options'',
                     JArr [JStr (codes ''a''), JStr (codes ''b''), JStr (codes ''c''),
                           JStr (codes ''d'')]),
                    (codes ''correct'', JStr (codes ''a''))]])\<close>
  by code_simp

text \<open>
  C10. The result need not be an array: the texts \<open>7\<close> and \<open>null\<close> hold no bracket, so
  there is no candidate, the parse of the whole text succeeds, and the function returns
  the integer 7 and the value \<open>None\<close>.
\<close>

theorem extract_returns_non_array:
  "candidates (strip_code_fences ''7'') = []
   \<and> extract_first_json_array json_loads ''7'' = Inr (JInt 7)
   \<and> candidates (strip_code_fences ''null'') = []
   \<and> extract_first_json_array json_loads ''null'' = Inr JNull"
  by (intro conjI; code_simp)

section \<open>Properties of the polling loop\<close>

text \<open>If the clock passes the timeout at the check of turn \<open>n\<close> and every poll before it
  finds the run in a state that is not terminal, the loop started at any turn up to
  \<open>n\<close> ends with the timeout error.\<close>

lemma poll_loop_times_out:
  assumes elapsed: "time_at env (Suc n) - time_at env 0 > of_int timeout"
      and running: "\<forall>k<n. \<exists>r. retrieve_at env k = Inr r \<and> status r \<notin> terminal_statuses"
      and "k \<le> n"
  shows "poll_loop env timeout k =
     Some (Inl (RuntimeError (''Run timed out after '' @ str_int timeout @ '' seconds'')))"
  using \<open>k \<le> n\<close>
proof (induction "n - k" arbitrary: k)
  case 0
  then have "k = n" by simp
  with elapsed show ?case
    by (subst poll_loop.simps) simp
next
  case (Suc d)
  then have kn: "k < n" and d: "d = n - Suc k" and le: "Suc k \<le> n" by simp_all
  from running kn obtain r where r: "retrieve_at env k = Inr r" "status r \<notin> terminal_statuses"
    by blast
  have ih: "poll_loop env timeout (Suc k) =
     Some (Inl (RuntimeError (''Run timed out after '' @ str_int timeout @ '' seconds'')))"
    using Suc.hyps(1) [OF d le] .
  show ?case
    by (subst poll_loop.simps) (simp add: r ih)
qed

text \<open>
  C6. A job whose status does not reach a terminal state before the timeout elapses:
  the clock reading of some turn \<open>n\<close> is more than \<open>timeout\<close> seconds after the start,
  and each earlier poll returns a run whose status is not terminal. Then
  \<open>wait_for_run_completion\<close> ends, and it ends by raising \<open>RuntimeError\<close> with the
  message \<open>Run timed out after ... seconds\<close>; no run is returned.
\<close>

theorem wait_for_run_completion_times_out:
  assumes "time_at env (Suc n) - time_at env 0 > of_int timeout"
      and "\<forall>k<n. \<exists>r. retrieve_at env k = Inr r \<and> status r \<notin> terminal_statuses"
  shows "wait_for_run_completion env timeout =
     Some (Inl (RuntimeError (''Run timed out after '' @ str_int timeout @ '' seconds'')))"
  unfolding wait_for_run_completion_def
  using assms by (intro poll_loop_times_out [where n = n]) simp_all

theorem wait_for_run_completion_times_out_witness:
  "time_at \<lparr>time_at = (\<lambda>k. 50 * of_nat k),
            retrieve_at = (\<lambda>k. Inr \<lparr>run_id = ''run_1'', status = ''in_progress''\<rparr>)\<rparr> (Suc 2)
     - time_at \<lparr>time_at = (\<lambda>k. 50 * of_nat k),
            retrieve_at = (\<lambda>k. Inr \<lparr>run_id = ''run_1'', status = ''in_progress''\<rparr>)\<rparr> 0
     > of_int 120
   \<and> ''in_progress'' \<notin> terminal_statuses
   \<and> wait_for_run_completion
        \<lparr>time_at = (\<lambda>k. 50 * of_nat k),
         retrieve_at = (\<lambda>k. Inr \<lparr>run_id = ''run_1'', status = ''in_progress''\<rparr>)\<rparr> 120 =
      Some (Inl (RuntimeError ''Run timed out after 120 seconds''))"
proof -
  let ?env = "\<lparr>time_at = (\<lambda>k. 50 * of_nat k),
         retrieve_at = (\<lambda>k. Inr \<lparr>run_id = ''run_1'', status = ''in_progress''\<rparr>)\<rparr>"
  have t: "time_at ?env (Suc 2) - time_at ?env 0 > of_int 120"
    by simp
  have s: "''in_progress'' \<notin> terminal_statuses"
    by (simp add: terminal_statuses_def)
  have r: "\<forall>k<2. \<exists>r. retrieve_at ?env k = Inr r \<and> status r \<notin> terminal_statuses"
    using s by simp
  have m: "str_int 120 = ''120''"
    by code_simp
  show ?thesis
    using t s wait_for_run_completion_times_out [OF t r]
    by (simp add: m)
qed

section \<open>Properties of the grading\<close>

text \<open>The score the loop returns is the score it started with plus the number of items
  whose selection equals their correct option.\<close>

lemma grade_loop_score:
  "fst (grade_loop qs ua idx score results) =
     score + length (filter (\<lambda>i. ua (idx + i) = Some (correct (qs ! i))) [0..<length qs])"
proof (induction qs arbitrary: idx score results)
  case Nil
  show ?case by simp
next
  case (Cons q qs)
  have u: "[0..<length (q # qs)] = 0 # map Suc [0..<length qs]"
    by (simp add: upt_conv_Cons map_Suc_upt del: upt_Suc)
  show ?case
    unfolding u by (simp add: Cons.IH Let_def filter_map comp_def)
qed

text \<open>
  C7. The score of \<open>submit_quiz\<close> is the number of items whose selected option is equal,
  as a string, to the item's \<open>correct\<close> field, and it is out of the number of items.
  For two items with the selection equal to \<open>correct\<close> on the first and different on
  the second, the score is 1 out of 2.
\<close>

theorem submit_quiz_score:
  "fst (submit_quiz quiz_data user_answers) =
     length (filter (\<lambda>i. user_answers i = Some (correct (quiz_data ! i)))
               [0..<length quiz_data])
   \<and> fst (snd (submit_quiz quiz_data user_answers)) = length quiz_data
   \<and> (user_answers 0 = Some (correct q1) \<and> user_answers 1 \<noteq> Some (correct q2) \<longrightarrow>
        submit_quiz [q1, q2] user_answers =
          (1, 2, [Question_correct 1, Question_incorrect 2 (correct q2)]))"
proof (intro conjI impI)
  show "fst (submit_quiz quiz_data user_answers) =
     length (filter (\<lambda>i. user_answers i = Some (correct (quiz_data ! i)))
               [0..<length quiz_data])"
    using grade_loop_score [of quiz_data user_answers 0 0 "[]"]
    by (cases "grade_loop quiz_data user_answers 0 0 []") (simp add: submit_quiz_def)
  show "fst (snd (submit_quiz quiz_data user_answers)) = length quiz_data"
    by (cases "grade_loop quiz_data user_answers 0 0 []") (simp add: submit_quiz_def)
  assume "user_answers 0 = Some (correct q1) \<and> user_answers 1 \<noteq> Some (correct q2)"
  then show "submit_quiz [q1, q2] user_answers =
          (1, 2, [Question_correct 1, Question_incorrect 2 (correct q2)])"
    by (simp add: submit_quiz_def Let_def)
qed

theorem submit_quiz_score_witness:
  "(\<lambda>i. if i = 0 then Some ''Paris'' else Some ''berlin'') (0::nat) =
     Some (correct \<lparr>question = ''Capital of France?'',
                    options = [''Paris'', ''Lyon'', ''Nice'', ''Lille''],
                    correct = ''Paris''\<rparr>)
   \<and> (\<lambda>i. if i = 0 then Some ''Paris'' else Some ''berlin'') (1::nat) \<noteq>
     Some (correct \<lparr>question = ''Capital of Germany?'',
                    options = [''Bonn'', ''Berlin'', ''Bremen'', ''berlin''],
                    correct = ''Berlin''\<rparr>)
   \<and> submit_quiz
       [\<lparr>question = ''Capital of France?'',
         options = [''Paris'', ''Lyon'', ''Nice'', ''Lille''], correct = ''Paris''\<rparr>,
        \<lparr>question = ''Capital of Germany?'',
         options = [''Bonn'', ''Berlin'', ''Bremen'', ''berlin''], correct = ''Berlin''\<rparr>]
       (\<lambda>i. if i = 0 then Some ''Paris'' else Some ''berlin'') =
     (1, 2, [Question_correct 1, Question_incorrect 2 ''Berlin''])"
proof -
  let ?q1 = "\<lparr>question = ''Capital of France?'',
         options = [''Paris'', ''Lyon'', ''Nice'', ''Lille''], correct = ''Paris''\<rparr>"
  let ?q2 = "\<lparr>question = ''Capital of Germany?'',
         options = [''Bonn'', ''Berlin'', ''Bremen'', ''berlin''], correct = ''Berlin''\<rparr>"
  let ?ua = "\<lambda>i::nat. if i = 0 then Some ''Paris'' else Some ''berlin''"
  have h: "?ua 0 = Some (correct ?q1) \<and> ?ua 1 \<noteq> Some (correct ?q2)"
    by simp
  have "submit_quiz [?q1, ?q2] ?ua =
          (1, 2, [Question_correct 1, Question_incorrect 2 (correct ?q2)])"
    using h submit_quiz_score [of _ ?ua ?q1 ?q2] by blast
  with h show ?thesis
    by simp
qed

end
